theory Spec2Isabelle
  imports Main
begin

section \<open>Strings and the JavaScript built-ins used by generateComponents.cjs\<close>

text \<open>
  The generator works on model names and on the tokens of a schema document. Both are
  Cairo identifiers and type names, so strings are modelled as \<open>string\<close> over ASCII
  code units: case conversion touches the 26 letters only and the white space that
  \<open>parseInt\<close> skips is the ASCII white space (TAB, LF, VT, FF, CR, SP).
\<close>

definition isDigit :: "char \<Rightarrow> bool" where
  "isDigit c \<longleftrightarrow> c \<in> set ''0123456789''"

definition isWhiteSpace :: "char \<Rightarrow> bool" where
  "isWhiteSpace c \<longleftrightarrow>
     c \<in> set [CHR 0x09, CHR 0x0A, CHR 0x0B, CHR 0x0C, CHR 0x0D, CHR 0x20]"

definition digitValue :: "char \<Rightarrow> nat option" where
  "digitValue c =
     map_of (zip ''0123456789abcdefghijklmnopqrstuvwxyz'' [0..<36] @
             zip ''ABCDEFGHIJKLMNOPQRSTUVWXYZ'' [10..<36]) c"

definition isRadixDigit :: "nat \<Rightarrow> char \<Rightarrow> bool" where
  "isRadixDigit r c = (case digitValue c of Some v \<Rightarrow> v < r | None \<Rightarrow> False)"

text \<open>
  \<open>parseInt(string)\<close> with no radix argument, after ECMAScript: leading white space is
  trimmed, one sign is read, a prefix \<open>0x\<close> or \<open>0X\<close> is removed and switches to radix
  16 (radix 10 otherwise), and the longest prefix of radix digits is converted. When
  that prefix is empty the result is NaN, here \<open>None\<close>. The value is the exact integer;
  JavaScript rounds it to a double, which is never NaN, and the generator only asks
  \<open>isNaN\<close> of it.
\<close>

definition parseInt :: "string \<Rightarrow> int option" where
  "parseInt inputString =
     (let S = dropWhile isWhiteSpace inputString;
          sign = (if take 1 S = ''-'' then - 1 else (1::int));
          S1 = (if take 1 S = ''-'' \<or> take 1 S = ''+'' then drop 1 S else S);
          stripPrefix = (take 2 S1 = ''0x'' \<or> take 2 S1 = ''0X'');
          R = (if stripPrefix then 16 else (10::nat));
          S2 = (if stripPrefix then drop 2 S1 else S1);
          Z = takeWhile (isRadixDigit R) S2
      in if Z = [] then None
         else Some (sign * int (foldl (\<lambda>a c. a * R +
                      (case digitValue c of Some v \<Rightarrow> v | None \<Rightarrow> 0)) 0 Z)))"

definition isNaN :: "int option \<Rightarrow> bool" where
  "isNaN v \<longleftrightarrow> v = None"

definition toUpperChar :: "char \<Rightarrow> char" where
  "toUpperChar c =
     (case map_of (zip ''abcdefghijklmnopqrstuvwxyz'' ''ABCDEFGHIJKLMNOPQRSTUVWXYZ'') c of
        Some u \<Rightarrow> u | None \<Rightarrow> c)"

definition toLowerChar :: "char \<Rightarrow> char" where
  "toLowerChar c =
     (case map_of (zip ''ABCDEFGHIJKLMNOPQRSTUVWXYZ'' ''abcdefghijklmnopqrstuvwxyz'') c of
        Some l \<Rightarrow> l | None \<Rightarrow> c)"

definition toUpperCase :: "string \<Rightarrow> string" where
  "toUpperCase s = map toUpperChar s"

definition toLowerCase :: "string \<Rightarrow> string" where
  "toLowerCase s = map toLowerChar s"

definition charAt :: "string \<Rightarrow> nat \<Rightarrow> string" where
  "charAt s i = take 1 (drop i s)"

definition slice :: "string \<Rightarrow> nat \<Rightarrow> string" where
  "slice s i = drop i s"

text \<open>
  \<open>s.split(sep)\<close>: the string is scanned from the left; at each position where \<open>sep\<close>
  occurs the current piece is closed and the scan resumes behind the occurrence. The
  result of a non-empty separator always has at least one piece (one empty piece for the
  empty string). An empty separator yields the single code units.
\<close>

function splitFrom :: "string \<Rightarrow> string \<Rightarrow> string \<Rightarrow> string list" where
  "splitFrom sep cur [] = [cur]"
| "splitFrom sep cur (c # cs) =
     (if sep \<noteq> [] \<and> take (length sep) (c # cs) = sep
      then cur # splitFrom sep [] (drop (length sep) (c # cs))
      else splitFrom sep (cur @ [c]) cs)"
  by pat_completeness auto
termination
  by (relation "measure (\<lambda>(sep, cur, s). length s)") auto

definition splitString :: "string \<Rightarrow> string \<Rightarrow> string list" where
  "splitString s sep = (if sep = [] then map (\<lambda>c. [c]) s else splitFrom sep [] s)"

text \<open>\<open>parts.join(sep)\<close> on an array of strings.\<close>

fun joinStrings :: "string list \<Rightarrow> string \<Rightarrow> string" where
  "joinStrings [] sep = []"
| "joinStrings [x] sep = x"
| "joinStrings (x # y # ys) sep = x @ sep @ joinStrings (y # ys) sep"


section \<open>Name normalizer: parseModelName\<close>

text \<open>A manifest entry; only its \<open>name\<close> field is read.\<close>

record model =
  name :: string

text \<open>The callback of \<open>.map\<close> in \<open>parseModelName\<close>, applied to one part.\<close>

definition normalizePart :: "string \<Rightarrow> string" where
  "normalizePart part =
     (if \<not> isNaN (parseInt part) then part
      else if length part \<le> 3 \<or> \<not> isNaN (parseInt (charAt part 0)) then toUpperCase part
      else toUpperCase (charAt part 0) @ toLowerCase (slice part 1))"

text \<open>
  \<open>.pop()\<close> takes the last piece of the split on \<open>::\<close>, which exists because the
  separator is not empty (lemma \<open>splitString_not_Nil\<close> below).
\<close>

definition parseModelName :: "model \<Rightarrow> string" where
  "parseModelName m =
     joinStrings (map normalizePart (splitString (last (splitString (name m) ''::'')) ''_'')) ''''"


section \<open>Schema translator\<close>

text \<open>
  A node of the schema document is an object with a \<open>type\<close> tag and a \<open>content\<close>
  whose shape follows the tag: a primitive carries its \<open>scalar_type\<close>, a struct its
  \<open>name\<close> and its \<open>children\<close> (each a \<open>name\<close> and a \<open>member_type\<close>), an enum its
  \<open>name\<close>, a tuple the array of its elements. \<open>Other tag\<close> stands for a node whose tag
  is none of \<open>primitive\<close>, \<open>struct\<close>, \<open>enum\<close>, \<open>tuple\<close>; the translator never looks
  at its content.
\<close>

datatype schema =
    Primitive string
  | Struct string "(string \<times> schema) list"
  | Enum string
  | Tuple "schema list"
  | Other string

text \<open>
  The values the recursive translator can return: a string, \<open>undefined\<close> (no branch of
  the dispatch taken), and the two objects that a lookup in the table object can find on
  its prototype under an all-lowercase key.
\<close>

datatype jsval = Str string | Undefined | ObjectConstructor | ObjectPrototype

definition cairoToRecsType :: "(string \<times> string) list" where
  "cairoToRecsType =
     [(''bool'', ''RecsType.Boolean''),
      (''u8'', ''RecsType.Number''),
      (''u16'', ''RecsType.Number''),
      (''u32'', ''RecsType.Number''),
      (''u64'', ''RecsType.Number''),
      (''usize'', ''RecsType.Number''),
      (''u128'', ''RecsType.BigInt''),
      (''u256'', ''RecsType.BigInt''),
      (''felt252'', ''RecsType.BigInt''),
      (''contractaddress'', ''RecsType.BigInt'')]"

text \<open>
  \<open>obj[key]\<close> on an object literal: the own properties first, then the prototype
  chain. \<open>cairoToRecsType\<close> is a plain object literal, so it inherits from
  \<open>Object.prototype\<close>. The key is always a lowercased string here, and the only
  properties of \<open>Object.prototype\<close> whose names have no capital letter are
  \<open>constructor\<close> (the function \<open>Object\<close>) and the accessor \<open>__proto__\<close> (which returns
  \<open>Object.prototype\<close>).
\<close>

definition getProperty :: "(string \<times> string) list \<Rightarrow> string \<Rightarrow> jsval" where
  "getProperty obj key =
     (case map_of obj key of
        Some v \<Rightarrow> Str v
      | None \<Rightarrow>
          if key = ''constructor'' then ObjectConstructor
          else if key = ''__proto__'' then ObjectPrototype
          else Undefined)"

text \<open>String conversion inside a template literal.\<close>

definition toString :: "jsval \<Rightarrow> string" where
  "toString v =
     (case v of
        Str s \<Rightarrow> s
      | Undefined \<Rightarrow> ''undefined''
      | ObjectConstructor \<Rightarrow> ''function Object() { [native code] }''
      | ObjectPrototype \<Rightarrow> ''[object Object]'')"

text \<open>\<open>Array.prototype.join\<close> renders an \<open>undefined\<close> element as the empty string.\<close>

definition joinElement :: "jsval \<Rightarrow> string" where
  "joinElement v = (case v of Undefined \<Rightarrow> [] | _ \<Rightarrow> toString v)"

text \<open>
  The accumulators \<open>types\<close> and \<open>customTypes\<close> are arrays that the source mutates with
  \<open>push\<close>; every function takes them and returns them updated.
\<close>

definition parseSchemaPrimitive :: "string \<Rightarrow> string list \<Rightarrow> jsval \<times> string list" where
  "parseSchemaPrimitive scalar_type types =
     (let scalarType = toLowerCase scalar_type;
          types1 = types @ [scalarType]
      in (case getProperty cairoToRecsType scalarType of
            Undefined \<Rightarrow> Str ''RecsType.String''
          | v \<Rightarrow> v,
          types1))"

definition parseSchemaEnum :: "string \<Rightarrow> jsval" where
  "parseSchemaEnum schema_name = Str ''RecsType.Number''"

text \<open>
  The recursive dispatch and the two \<open>.map\<close> loops it runs through: \<open>mapMembers\<close> is
  the loop over \<open>content.children\<close> in \<open>parseSchemaStruct\<close>, \<open>mapElements\<close> the loop
  over the elements in \<open>parseSchemaTuple\<close>; both visit the array from left to right and
  thread the accumulators through the calls.
\<close>

function (sequential) parseModelSchemaToRecsImpl ::
      "schema \<Rightarrow> string list \<Rightarrow> string list \<Rightarrow> jsval \<times> string list \<times> string list"
  and parseSchemaStruct ::
      "string \<times> (string \<times> schema) list \<Rightarrow> string list \<Rightarrow> string list
         \<Rightarrow> string \<times> string list \<times> string list"
  and mapMembers ::
      "(string \<times> schema) list \<Rightarrow> string list \<Rightarrow> string list
         \<Rightarrow> string list \<times> string list \<times> string list"
  and parseSchemaTuple ::
      "schema list \<Rightarrow> string list \<Rightarrow> string list \<Rightarrow> string \<times> string list \<times> string list"
  and mapElements ::
      "schema list \<Rightarrow> string list \<Rightarrow> string list
         \<Rightarrow> jsval list \<times> string list \<times> string list"
where
  "parseModelSchemaToRecsImpl (Primitive scalar_type) types customTypes =
     (case parseSchemaPrimitive scalar_type types of
        (v, types1) \<Rightarrow> (v, types1, customTypes))"
| "parseModelSchemaToRecsImpl (Struct nm children) types customTypes =
     (case parseSchemaStruct (nm, children) types (customTypes @ [nm]) of
        (e, types1, customTypes1) \<Rightarrow> (Str e, types1, customTypes1))"
| "parseModelSchemaToRecsImpl (Enum nm) types customTypes =
     (parseSchemaEnum nm, types @ [''enum''], customTypes @ [nm])"
| "parseModelSchemaToRecsImpl (Tuple elements) types customTypes =
     (case parseSchemaTuple elements types customTypes of
        (e, types1, customTypes1) \<Rightarrow> (Str e, types1, customTypes1))"
| "parseModelSchemaToRecsImpl (Other tag) types customTypes =
     (Undefined, types, customTypes)"
| "parseSchemaStruct (nm, children) types customTypes =
     (case mapMembers children types customTypes of
        (rendered, types1, customTypes1) \<Rightarrow>
          (''{ '' @ joinStrings rendered '', '' @ '' }'', types1, customTypes1))"
| "mapMembers [] types customTypes = ([], types, customTypes)"
| "mapMembers ((member_name, member_type) # rest) types customTypes =
     (case parseModelSchemaToRecsImpl member_type types customTypes of
        (v, types1, customTypes1) \<Rightarrow>
          (case mapMembers rest types1 customTypes1 of
             (rendered, types2, customTypes2) \<Rightarrow>
               ((member_name @ '': '' @ toString v) # rendered, types2, customTypes2)))"
| "parseSchemaTuple elements types customTypes =
     (case mapElements elements types customTypes of
        (vs, types1, customTypes1) \<Rightarrow>
          (''[ '' @ joinStrings (map joinElement vs) '', '' @ '' ]'', types1, customTypes1))"
| "mapElements [] types customTypes = ([], types, customTypes)"
| "mapElements (element # rest) types customTypes =
     (case parseModelSchemaToRecsImpl element types customTypes of
        (v, types1, customTypes1) \<Rightarrow>
          (case mapElements rest types1 customTypes1 of
             (vs, types2, customTypes2) \<Rightarrow> (v # vs, types2, customTypes2)))"
  by pat_completeness auto
termination
  by (relation "measure (\<lambda>x. case x of
          Inl (Inl (n, _)) \<Rightarrow> 3 * size n
        | Inl (Inr ((nm, ch), _)) \<Rightarrow> 3 * size_list (size_prod (\<lambda>_. 0) size) ch + 2
        | Inr (Inl (ch, _)) \<Rightarrow> 3 * size_list (size_prod (\<lambda>_. 0) size) ch + 1
        | Inr (Inr (Inl (es, _))) \<Rightarrow> 3 * size_list size es + 2
        | Inr (Inr (Inr (es, _))) \<Rightarrow> 3 * size_list size es + 1)") auto

text \<open>
  The errors a run can meet inside the \<open>try\<close> block: the root check of the translator,
  and a failure of the schema fetch (the \<open>sozo\<close> command or \<open>JSON.parse\<close>), which
  carries the text of the exception.
\<close>

datatype error = UnsupportedRootSchema | FetchFailure string

fun parseModelSchemaToRecs ::
      "schema \<Rightarrow> string list \<Rightarrow> string list
         \<Rightarrow> error + string \<times> string list \<times> string list" where
  "parseModelSchemaToRecs (Struct nm children) types customTypes =
     Inr (parseSchemaStruct (nm, children) types customTypes)"
| "parseModelSchemaToRecs other types customTypes = Inl UnsupportedRootSchema"


section \<open>Document emission and the run over the manifest\<close>

text \<open>
  \<open>JSON.stringify\<close> on an array of strings: each string is quoted, with the two-character
  escapes of JSON and \<open>\u00XX\<close> for the other control characters, and the items are
  joined by a comma without space.
\<close>

definition hexDigitLower :: "nat \<Rightarrow> char" where
  "hexDigitLower n = ''0123456789abcdef'' ! (n mod 16)"

definition quoteJSONChar :: "char \<Rightarrow> string" where
  "quoteJSONChar c =
     (if c = CHR 0x08 then [CHR 0x5C] @ ''b''
      else if c = CHR 0x09 then [CHR 0x5C] @ ''t''
      else if c = CHR 0x0A then [CHR 0x5C] @ ''n''
      else if c = CHR 0x0C then [CHR 0x5C] @ ''f''
      else if c = CHR 0x0D then [CHR 0x5C] @ ''r''
      else if c = CHR 0x22 then [CHR 0x5C, CHR 0x22]
      else if c = CHR 0x5C then [CHR 0x5C, CHR 0x5C]
      else if (of_char c :: nat) < 32
        then [CHR 0x5C] @ ''u00'' @
             [hexDigitLower (of_char c div 16), hexDigitLower (of_char c mod 16)]
      else [c])"

definition quoteJSONString :: "string \<Rightarrow> string" where
  "quoteJSONString s = [CHR 0x22] @ concat (map quoteJSONChar s) @ [CHR 0x22]"

definition stringify :: "string list \<Rightarrow> string" where
  "stringify xs = ''['' @ joinStrings (map quoteJSONString xs) '','' @ '']''"

text \<open>The text appended to \<open>fileContent\<close> for one model (a tab opens every line).\<close>

definition emitBlock :: "string \<Rightarrow> string \<Rightarrow> string list \<Rightarrow> string list \<Rightarrow> string" where
  "emitBlock modelName recsTypeObject types customTypes =
     [CHR 0x09] @ ''  '' @ modelName @ '': (() => {'' @ [CHR 0x0A] @
     [CHR 0x09] @ ''    return defineComponent('' @ [CHR 0x0A] @
     [CHR 0x09] @ ''      world,'' @ [CHR 0x0A] @
     [CHR 0x09] @ ''      '' @ recsTypeObject @ '','' @ [CHR 0x0A] @
     [CHR 0x09] @ ''      {'' @ [CHR 0x0A] @
     [CHR 0x09] @ ''        metadata: {'' @ [CHR 0x0A] @
     [CHR 0x09] @ ''          name: '' @ [CHR 0x22] @ modelName @ [CHR 0x22] @ '','' @ [CHR 0x0A] @
     [CHR 0x09] @ ''          types: '' @ stringify types @ '','' @ [CHR 0x0A] @
     [CHR 0x09] @ ''          customTypes: '' @ stringify customTypes @ '','' @ [CHR 0x0A] @
     [CHR 0x09] @ ''        },'' @ [CHR 0x0A] @
     [CHR 0x09] @ ''      }'' @ [CHR 0x0A] @
     [CHR 0x09] @ ''    );'' @ [CHR 0x0A] @
     [CHR 0x09] @ ''  })(),'' @ [CHR 0x0A]"

definition fileHeader :: string where
  "fileHeader =
     ''/* Autogenerated file. Do not edit manually. */'' @ [CHR 0x0A, CHR 0x0A] @
     ''import { defineComponent, Type as RecsType, World } from '' @
       [CHR 0x22] @ ''@dojoengine/recs'' @ [CHR 0x22] @ '';'' @ [CHR 0x0A, CHR 0x0A] @
     ''export function defineContractComponents(world: World) {'' @ [CHR 0x0A] @
     ''  return {'' @ [CHR 0x0A]"

definition fileFooter :: string where
  "fileFooter = ''  };'' @ [CHR 0x0A] @ ''}'' @ [CHR 0x0A]"

text \<open>The text of an exception inside a template literal, and the line the \<open>catch\<close> prints.\<close>

definition errorText :: "error \<Rightarrow> string" where
  "errorText e =
     (case e of
        UnsupportedRootSchema \<Rightarrow> ''Error: unsupported root schema type''
      | FetchFailure t \<Rightarrow> t)"

definition errorMessage :: "string \<Rightarrow> string \<Rightarrow> error \<Rightarrow> string" where
  "errorMessage modelName rpcUrl e =
     ''error when fetching schema for model '' @ [CHR 0x27] @ modelName @ [CHR 0x27] @
     '' from '' @ rpcUrl @ '': '' @ errorText e"

text \<open>
  The schema fetch (\<open>execSync\<close> of the \<open>sozo\<close> command followed by \<open>JSON.parse\<close>) is an
  external capability: a function of the normalized model name, the endpoint and the world
  address that returns the schema or the text of the exception it raised.
\<close>

type_synonym fetcher = "string \<Rightarrow> string \<Rightarrow> string \<Rightarrow> string + schema"

text \<open>
  The body of the \<open>try\<close> block for one model, with fresh accumulators: the fetch, then
  the root translation; either may raise.
\<close>

definition translateModel ::
    "fetcher \<Rightarrow> string \<Rightarrow> string \<Rightarrow> string
       \<Rightarrow> error + string \<times> string list \<times> string list" where
  "translateModel fetchSchema rpcUrl worldAddress modelName =
     (case fetchSchema modelName rpcUrl worldAddress of
        Inl t \<Rightarrow> Inl (FetchFailure t)
      | Inr schema \<Rightarrow> parseModelSchemaToRecs schema [] [])"

text \<open>
  \<open>manifest.models.forEach\<close>: the models in manifest order. An exception in the \<open>try\<close>
  block reaches the \<open>catch\<close>, which prints one line and calls \<open>process.exit(0)\<close>: the
  loop returns that line (\<open>Inl\<close>) and nothing after it runs. Otherwise the block of the
  model is appended to \<open>fileContent\<close>.
\<close>

fun forEachModel ::
    "fetcher \<Rightarrow> string \<Rightarrow> string \<Rightarrow> model list \<Rightarrow> string \<Rightarrow> string + string" where
  "forEachModel fetchSchema rpcUrl worldAddress [] fileContent = Inr fileContent"
| "forEachModel fetchSchema rpcUrl worldAddress (m # rest) fileContent =
     (let modelName = parseModelName m
      in case translateModel fetchSchema rpcUrl worldAddress modelName of
           Inl e \<Rightarrow> Inl (errorMessage modelName rpcUrl e)
         | Inr (recsTypeObject, types, customTypes) \<Rightarrow>
             forEachModel fetchSchema rpcUrl worldAddress rest
               (fileContent @ emitBlock modelName recsTypeObject types customTypes))"

text \<open>
  What a run leaves behind: its exit status, the lines on standard error and standard
  output, and the call of \<open>fs.writeFile\<close> (path and content) if it was made.
\<close>

record outcome =
  exitStatus :: nat
  stderrLines :: "string list"
  stdoutLines :: "string list"
  writeFileCall :: "(string \<times> string) option"

text \<open>
  The script from the loop on, for a parsed manifest. \<open>writeFile\<close> is the file system:
  it returns the error text when the write fails. After the callback the process ends
  with status 0.
\<close>

definition run ::
    "fetcher \<Rightarrow> (string \<Rightarrow> string \<Rightarrow> string option) \<Rightarrow> model list \<Rightarrow> string \<Rightarrow> string \<Rightarrow> string
       \<Rightarrow> outcome" where
  "run fetchSchema writeFile models jsFilePath rpcUrl worldAddress =
     (case forEachModel fetchSchema rpcUrl worldAddress models fileHeader of
        Inl line \<Rightarrow>
          \<lparr>exitStatus = 0, stderrLines = [line], stdoutLines = [], writeFileCall = None\<rparr>
      | Inr body \<Rightarrow>
          (let fileContent = body @ fileFooter
           in case writeFile jsFilePath fileContent of
                Some err \<Rightarrow>
                  \<lparr>exitStatus = 0, stderrLines = [''error writing file: '' @ err],
                   stdoutLines = [], writeFileCall = Some (jsFilePath, fileContent)\<rparr>
              | None \<Rightarrow>
                  \<lparr>exitStatus = 0, stderrLines = [],
                   stdoutLines = [''Components file generated successfully: '' @ jsFilePath],
                   writeFileCall = Some (jsFilePath, fileContent)\<rparr>))"


section \<open>Reference definitions for the properties\<close>

text \<open>
  An integer literal: an optional sign and then decimal digits only, at least one.
\<close>

definition isIntegerLiteral :: "string \<Rightarrow> bool" where
  "isIntegerLiteral s \<longleftrightarrow>
     (let ds = (if take 1 s = ''-'' \<or> take 1 s = ''+'' then drop 1 s else s)
      in ds \<noteq> [] \<and> list_all isDigit ds)"

text \<open>
  A part that opens with the hexadecimal prefix but has no hexadecimal digit behind it,
  such as \<open>0x\<close> or \<open>0xyz\<close>.
\<close>

definition hexPrefixNoDigits :: "string \<Rightarrow> bool" where
  "hexPrefixNoDigits s \<longleftrightarrow>
     (take 2 s = ''0x'' \<or> take 2 s = ''0X'') \<and> takeWhile (isRadixDigit 16) (drop 2 s) = []"

text \<open>
  The translation as a pure function of the node, after the table of the specification:
  the expression, and the names a node contributes to \<open>types\<close> and to \<open>customTypes\<close>
  in depth-first pre-order (a struct's own name before what its children contribute).
\<close>

fun typesOf :: "schema \<Rightarrow> string list" where
  "typesOf (Primitive scalar_type) = [toLowerCase scalar_type]"
| "typesOf (Struct nm children) =
     concat (map (\<lambda>(member_name, member_type). typesOf member_type) children)"
| "typesOf (Enum nm) = [''enum'']"
| "typesOf (Tuple elements) = concat (map typesOf elements)"
| "typesOf (Other tag) = []"

fun customTypesOf :: "schema \<Rightarrow> string list" where
  "customTypesOf (Primitive scalar_type) = []"
| "customTypesOf (Struct nm children) =
     nm # concat (map (\<lambda>(member_name, member_type). customTypesOf member_type) children)"
| "customTypesOf (Enum nm) = [nm]"
| "customTypesOf (Tuple elements) = concat (map customTypesOf elements)"
| "customTypesOf (Other tag) = []"

fun exprOf :: "schema \<Rightarrow> jsval" where
  "exprOf (Primitive scalar_type) =
     (case getProperty cairoToRecsType (toLowerCase scalar_type) of
        Undefined \<Rightarrow> Str ''RecsType.String'' | v \<Rightarrow> v)"
| "exprOf (Struct nm children) =
     Str (''{ '' @ joinStrings (map (\<lambda>(member_name, member_type).
            member_name @ '': '' @ toString (exprOf member_type)) children) '', '' @ '' }'')"
| "exprOf (Enum nm) = Str ''RecsType.Number''"
| "exprOf (Tuple elements) =
     Str (''[ '' @ joinStrings (map (\<lambda>element. joinElement (exprOf element)) elements) '', ''
          @ '' ]'')"
| "exprOf (Other tag) = Undefined"

text \<open>A model for which the \<open>try\<close> block raises: its fetch or its translation fails.\<close>

definition modelFails :: "fetcher \<Rightarrow> string \<Rightarrow> string \<Rightarrow> model \<Rightarrow> bool" where
  "modelFails fetchSchema rpcUrl worldAddress m \<longleftrightarrow>
     isl (translateModel fetchSchema rpcUrl worldAddress (parseModelName m))"

section \<open>Facts about the built-ins\<close>

lemma digit_facts:
  "\<forall>c\<in>set ''0123456789''.
      isRadixDigit 10 c \<and> \<not> isWhiteSpace c \<and> c \<noteq> CHR ''-'' \<and> c \<noteq> CHR ''+'' \<and>
      c \<noteq> CHR ''x'' \<and> c \<noteq> CHR ''X'' \<and> c \<noteq> CHR '':'' \<and> c \<noteq> CHR ''_''"
  by code_simp

lemma isDigit_props:
  assumes "isDigit c"
  shows "isRadixDigit 10 c" "\<not> isWhiteSpace c" "c \<noteq> CHR ''-''" "c \<noteq> CHR ''+''"
    "c \<noteq> CHR ''x''" "c \<noteq> CHR ''X''" "c \<noteq> CHR '':''" "c \<noteq> CHR ''_''"
  using assms digit_facts unfolding isDigit_def by blast+

lemma sign_not_whitespace: "\<not> isWhiteSpace (CHR ''-'')" "\<not> isWhiteSpace (CHR ''+'')"
  by code_simp+

lemma digits_no_hex_prefix:
  assumes "list_all isDigit ds"
  shows "take 2 ds \<noteq> ''0x''" "take 2 ds \<noteq> ''0X''"
proof -
  have "\<And>x. x \<in> set (take 2 ds) \<Longrightarrow> isDigit x"
    using assms by (auto simp: list_all_iff dest: in_set_takeD)
  then have "CHR ''x'' \<notin> set (take 2 ds)" "CHR ''X'' \<notin> set (take 2 ds)"
    using isDigit_props(5,6) by blast+
  then show "take 2 ds \<noteq> ''0x''" "take 2 ds \<noteq> ''0X''" by auto
qed

lemma parseInt_digit_first:
  assumes "isDigit c"
  shows "isNaN (parseInt (c # cs)) \<longleftrightarrow> hexPrefixNoDigits (c # cs)"
proof -
  have ws: "dropWhile isWhiteSpace (c # cs) = c # cs"
    using isDigit_props(2)[OF assms] by simp
  have sg: "take 1 (c # cs) \<noteq> ''-''" "take 1 (c # cs) \<noteq> ''+''"
    using isDigit_props(3,4)[OF assms] by simp_all
  have dec: "takeWhile (isRadixDigit 10) (c # cs) \<noteq> []"
    using isDigit_props(1)[OF assms] by simp
  show ?thesis
    unfolding parseInt_def isNaN_def hexPrefixNoDigits_def Let_def ws
    using sg dec by (auto simp del: take_Suc_Cons takeWhile.simps)
qed

lemma parseInt_single_digit: "isDigit c \<Longrightarrow> \<not> isNaN (parseInt [c])"
  using parseInt_digit_first[of c "[]"] by (simp add: hexPrefixNoDigits_def)

lemma parseInt_digits:
  assumes "ds \<noteq> []" and "list_all isDigit ds"
  shows "\<not> isNaN (parseInt ds)"
proof -
  obtain c cs where ds: "ds = c # cs" using assms(1) by (cases ds) auto
  with assms(2) have c: "isDigit c" by simp
  have "\<not> hexPrefixNoDigits ds"
    using digits_no_hex_prefix[OF assms(2)] by (simp add: hexPrefixNoDigits_def)
  then show ?thesis using parseInt_digit_first[OF c, of cs] ds by simp
qed

lemma parseInt_signed_digits:
  assumes "sg = CHR ''-'' \<or> sg = CHR ''+''" and "ds \<noteq> []" and "list_all isDigit ds"
  shows "\<not> isNaN (parseInt (sg # ds))"
proof -
  obtain c cs where ds: "ds = c # cs" using assms(2) by (cases ds) auto
  with assms(3) have c: "isDigit c" by simp
  have ws: "dropWhile isWhiteSpace (sg # ds) = sg # ds"
    using assms(1) sign_not_whitespace by auto
  have dec: "takeWhile (isRadixDigit 10) ds \<noteq> []"
    using isDigit_props(1)[OF c] ds by simp
  show ?thesis
    unfolding parseInt_def isNaN_def Let_def ws
    using assms(1) dec digits_no_hex_prefix[OF assms(3)] by auto
qed

lemma parseInt_integer_literal: "isIntegerLiteral s \<Longrightarrow> \<not> isNaN (parseInt s)"
proof -
  assume lit: "isIntegerLiteral s"
  show ?thesis
  proof (cases "take 1 s = ''-'' \<or> take 1 s = ''+''")
    case True
    then obtain sg where s: "s = sg # drop 1 s" and sg: "sg = CHR ''-'' \<or> sg = CHR ''+''"
      by (cases s) auto
    from lit True have "drop 1 s \<noteq> []" "list_all isDigit (drop 1 s)"
      by (simp_all add: isIntegerLiteral_def)
    from parseInt_signed_digits[OF sg this] s show ?thesis by simp
  next
    case False
    with lit have "s \<noteq> []" "list_all isDigit s"
      by (simp_all add: isIntegerLiteral_def)
    then show ?thesis by (rule parseInt_digits)
  qed
qed

lemma integer_literal_chars:
  assumes "isIntegerLiteral s"
  shows "CHR '':'' \<notin> set s" "CHR ''_'' \<notin> set s"
proof -
  have "\<And>x. x \<in> set s \<Longrightarrow> x = CHR ''-'' \<or> x = CHR ''+'' \<or> isDigit x"
  proof (cases "take 1 s = ''-'' \<or> take 1 s = ''+''")
    case True
    then obtain sg where s: "s = sg # drop 1 s" and sg: "sg = CHR ''-'' \<or> sg = CHR ''+''"
      by (cases s) auto
    from assms True have "list_all isDigit (drop 1 s)"
      by (simp add: isIntegerLiteral_def)
    then have "\<And>x. x \<in> set (drop 1 s) \<Longrightarrow> isDigit x" by (simp add: list_all_iff)
    then show "\<And>x. x \<in> set s \<Longrightarrow> x = CHR ''-'' \<or> x = CHR ''+'' \<or> isDigit x"
      using sg by (subst (asm) s) auto
  next
    case False
    with assms have "list_all isDigit s" by (simp add: isIntegerLiteral_def)
    then show "\<And>x. x \<in> set s \<Longrightarrow> x = CHR ''-'' \<or> x = CHR ''+'' \<or> isDigit x"
      by (simp add: list_all_iff)
  qed
  then show "CHR '':'' \<notin> set s" "CHR ''_'' \<notin> set s"
    using isDigit_props(7,8) by fastforce+
qed

lemma splitFrom_no_sep:
  assumes "sep \<noteq> []" and "hd sep \<notin> set s"
  shows "splitFrom sep cur s = [cur @ s]"
  using assms
proof (induction s arbitrary: cur)
  case Nil
  then show ?case by simp
next
  case (Cons a s)
  from Cons.prems have "take (length sep) (a # s) \<noteq> sep"
    by (cases sep) auto
  with Cons show ?case by simp
qed

lemma splitFrom_not_Nil: "splitFrom sep cur s \<noteq> []"
  by (induction sep cur s rule: splitFrom.induct) auto

lemma splitString_not_Nil: "sep \<noteq> [] \<Longrightarrow> splitString s sep \<noteq> []"
  by (simp add: splitString_def splitFrom_not_Nil)

lemma parseModelName_single_part:
  assumes "CHR '':'' \<notin> set s" and "CHR ''_'' \<notin> set s"
  shows "parseModelName \<lparr>name = s\<rparr> = normalizePart s"
  using assms by (simp add: parseModelName_def splitString_def splitFrom_no_sep)


section \<open>Name normalizer: properties\<close>

text \<open>
  Claim C6. A part that is an integer literal (an optional sign, then decimal digits only,
  such as \<open>123\<close>) is returned unchanged by the callback of the normalizer, and a model
  name that consists of such a part alone is normalized to itself.
\<close>

theorem integer_part_unchanged:
  assumes "isIntegerLiteral part"
  shows "normalizePart part = part \<and> parseModelName \<lparr>name = part\<rparr> = part"
proof -
  have np: "normalizePart part = part"
    using parseInt_integer_literal[OF assms] by (simp add: normalizePart_def)
  have "parseModelName \<lparr>name = part\<rparr> = normalizePart part"
    using integer_literal_chars[OF assms] by (rule parseModelName_single_part)
  with np show ?thesis by simp
qed

theorem integer_part_unchanged_witness:
  "isIntegerLiteral ''123'' \<and> normalizePart ''123'' = ''123'' \<and>
   parseModelName \<lparr>name = ''123''\<rparr> = ''123''"
  using integer_part_unchanged[of "''123''"]
  by (simp add: isIntegerLiteral_def isDigit_def)

text \<open>
  Claim C9, amended. For a part whose first character is an ASCII digit the callback
  returns the part verbatim, except when the part opens with \<open>0x\<close> or \<open>0X\<close> and no
  hexadecimal digit follows: then \<open>parseInt\<close> of the part is NaN and the part is returned
  fully uppercased. So the uppercase branch is reached by digit-initial parts of that
  shape and by no other digit-initial part.
\<close>

theorem digit_first_part:
  assumes "isDigit c"
  shows "normalizePart (c # cs) =
           (if hexPrefixNoDigits (c # cs) then toUpperCase (c # cs) else c # cs)"
  using parseInt_digit_first[OF assms, of cs] parseInt_single_digit[OF assms]
  by (simp add: normalizePart_def charAt_def)

theorem digit_first_part_witness:
  "isDigit (CHR ''1'') \<and> normalizePart ''128balance'' = ''128balance''"
  using digit_first_part[of "CHR ''1''" "''28balance''"]
  by (simp add: isDigit_def hexPrefixNoDigits_def)

text \<open>
  Claim C9 as stated fails: the part \<open>0xyz\<close> starts with a digit and is not returned
  verbatim but uppercased, through the branch the claim calls unreachable.
\<close>

theorem hex_prefix_part_uppercased:
  "isDigit (CHR ''0'') \<and> normalizePart ''0xyz'' \<noteq> ''0xyz'' \<and> normalizePart ''0xyz'' = ''0XYZ'' \<and>
   isNaN (parseInt ''0xyz'') \<and> \<not> isNaN (parseInt (charAt ''0xyz'' 0)) \<and>
   parseModelName \<lparr>name = ''ns::my_0xyz''\<rparr> = ''MY0XYZ''"
  by code_simp

text \<open>
  Claim C1 at the input of its own example. The part \<open>128balance\<close> is not an integer
  literal and its first character is a digit, yet the callback returns it unchanged and
  not uppercased: \<open>parseInt\<close> reads the digit prefix \<open>128\<close>, so the first test keeps the
  part and the uppercase test on the first character is never asked. The short part
  \<open>u8\<close> is uppercased as the claim says.
\<close>

theorem digit_prefix_part_not_uppercased:
  "\<not> isIntegerLiteral ''128balance'' \<and> isDigit (CHR ''1'') \<and>
   parseInt ''128balance'' = Some 128 \<and>
   normalizePart ''128balance'' = ''128balance'' \<and>
   toUpperCase ''128balance'' = ''128BALANCE'' \<and>
   parseModelName \<lparr>name = ''ns::128balance''\<rparr> = ''128balance'' \<and>
   normalizePart ''u8'' = ''U8''"
  by code_simp


section \<open>Schema translator: properties\<close>

text \<open>
  The recursive translator computes the pure translation of the node and appends to the
  two accumulators what the node contributes, whatever they held before.
\<close>

lemma translate_refines:
  "parseModelSchemaToRecsImpl n types customTypes =
     (exprOf n, types @ typesOf n, customTypes @ customTypesOf n)"
  "parseSchemaStruct content types customTypes =
     (''{ '' @ joinStrings (map (\<lambda>(member_name, member_type).
            member_name @ '': '' @ toString (exprOf member_type)) (snd content)) '', '' @ '' }'',
      types @ concat (map (\<lambda>(member_name, member_type). typesOf member_type) (snd content)),
      customTypes @
        concat (map (\<lambda>(member_name, member_type). customTypesOf member_type) (snd content)))"
  "mapMembers children types customTypes =
     (map (\<lambda>(member_name, member_type).
            member_name @ '': '' @ toString (exprOf member_type)) children,
      types @ concat (map (\<lambda>(member_name, member_type). typesOf member_type) children),
      customTypes @
        concat (map (\<lambda>(member_name, member_type). customTypesOf member_type) children))"
  "parseSchemaTuple elements types customTypes =
     (''[ '' @ joinStrings (map (\<lambda>element. joinElement (exprOf element)) elements) '', ''
        @ '' ]'',
      types @ concat (map typesOf elements),
      customTypes @ concat (map customTypesOf elements))"
  "mapElements elements types customTypes =
     (map exprOf elements,
      types @ concat (map typesOf elements),
      customTypes @ concat (map customTypesOf elements))"
proof (induction n types customTypes and content types customTypes
    and children types customTypes and elements types customTypes
    and elements types customTypes
    rule: parseModelSchemaToRecsImpl_parseSchemaStruct_mapMembers_parseSchemaTuple_mapElements.induct)
  case (1 scalar_type types customTypes)
  show ?case by (simp add: parseSchemaPrimitive_def Let_def)
next
  case (2 nm children types customTypes)
  then show ?case by simp
next
  case (3 nm types customTypes)
  show ?case by (simp add: parseSchemaEnum_def)
next
  case (4 elements types customTypes)
  then show ?case by simp
next
  case (5 tag types customTypes)
  show ?case by simp
next
  case (6 nm children types customTypes)
  then show ?case by simp
next
  case (7 types customTypes)
  show ?case by simp
next
  case (8 member_name member_type rest types customTypes)
  then show ?case by simp
next
  case (9 elements types customTypes)
  then show ?case by (simp add: comp_def)
next
  case (10 types customTypes)
  show ?case by simp
next
  case (11 element rest types customTypes)
  then show ?case by simp
qed

text \<open>
  The table of the primitive case, for every scalar type whose lowercased name is not
  one of the two all-lowercase property names that the table object inherits.
\<close>

lemma primitive_table:
  assumes "toLowerCase scalar_type \<noteq> ''constructor''"
      and "toLowerCase scalar_type \<noteq> ''__proto__''"
  shows "parseModelSchemaToRecsImpl (Primitive scalar_type) types customTypes =
           (Str (if toLowerCase scalar_type = ''bool'' then ''RecsType.Boolean''
                 else if toLowerCase scalar_type \<in>
                           {''u8'', ''u16'', ''u32'', ''u64'', ''usize''}
                   then ''RecsType.Number''
                 else if toLowerCase scalar_type \<in>
                           {''u128'', ''u256'', ''felt252'', ''contractaddress''}
                   then ''RecsType.BigInt''
                 else ''RecsType.String''),
            types @ [toLowerCase scalar_type], customTypes)"
  using assms
  by (simp add: parseSchemaPrimitive_def Let_def getProperty_def cairoToRecsType_def)

lemma exprOf_u8_felt252:
  "exprOf (Primitive ''u8'') = Str ''RecsType.Number''"
  "exprOf (Primitive ''felt252'') = Str ''RecsType.BigInt''"
  "toLowerCase ''u8'' = ''u8''"
  "toLowerCase ''felt252'' = ''felt252''"
  by code_simp+

text \<open>
  Claim C2. The root translation raises the unsupported-root error exactly when the root
  node is not a struct, for instance for an enum or a primitive root; for a struct root
  it raises nothing and returns what \<open>parseSchemaStruct\<close> returns for the content.
\<close>

theorem root_error_iff_not_struct:
  "(parseModelSchemaToRecs s types customTypes = Inl UnsupportedRootSchema
      \<longleftrightarrow> (\<forall>nm children. s \<noteq> Struct nm children)) \<and>
   parseModelSchemaToRecs (Enum nm) types customTypes = Inl UnsupportedRootSchema \<and>
   parseModelSchemaToRecs (Primitive scalar_type) types customTypes = Inl UnsupportedRootSchema \<and>
   parseModelSchemaToRecs (Struct nm children) types customTypes =
     Inr (parseSchemaStruct (nm, children) types customTypes)"
  by (cases s) simp_all

text \<open>
  Claim C3 at a scalar type that is absent from the table. The lowercased name
  \<open>constructor\<close> is no key of \<open>cairoToRecsType\<close>, but the lookup finds the inherited
  property of that name, which is not nullish; the fallback is not taken and the
  translator returns the function \<open>Object\<close>, rendered into the expression of the
  enclosing struct. The name is appended to \<open>types\<close> as claimed.
\<close>

theorem primitive_inherited_key_no_fallback:
  "map_of cairoToRecsType (toLowerCase ''constructor'') = None \<and>
   parseModelSchemaToRecsImpl (Primitive ''constructor'') [] [] =
     (ObjectConstructor, [''constructor''], []) \<and>
   ObjectConstructor \<noteq> Str ''RecsType.String'' \<and>
   parseModelSchemaToRecs (Struct ''M'' [(''f'', Primitive ''constructor'')]) [] [] =
     Inr (''{ f: function Object() { [native code] } }'', [''constructor''], []) \<and>
   parseModelSchemaToRecsImpl (Primitive ''unknowntype'') [] [] =
     (Str ''RecsType.String'', [''unknowntype''], [])"
  by code_simp

text \<open>
  Claim C4. The recursive translator appends to the accumulators in depth-first
  pre-order: after translating a node, \<open>types\<close> and \<open>customTypes\<close> are the old contents
  followed by the pre-order contributions of the node. In particular, for a struct that
  contains a nested struct among its children, the outer name is appended first, then
  what the earlier children contribute, then the inner name, then the contributions of
  the inner struct's children and of the later children.
\<close>

theorem accumulators_preorder:
  "snd (parseModelSchemaToRecsImpl n types customTypes) =
     (types @ typesOf n, customTypes @ customTypesOf n) \<and>
   snd (snd (parseModelSchemaToRecsImpl
          (Struct outer (before @ [(field, Struct inner grandchildren)] @ after))
          types customTypes)) =
     customTypes @ [outer] @
       concat (map (\<lambda>(member_name, member_type). customTypesOf member_type) before) @
       [inner] @
       concat (map (\<lambda>(member_name, member_type). customTypesOf member_type) grandchildren) @
       concat (map (\<lambda>(member_name, member_type). customTypesOf member_type) after)"
  by (simp add: translate_refines(1))

text \<open>
  Claim C5. The root translation of a struct with the children \<open>a\<close>, a primitive
  \<open>u8\<close>, and \<open>b\<close>, a primitive \<open>felt252\<close>, started on empty accumulators, returns the
  expression \<open>{ a: RecsType.Number, b: RecsType.BigInt }\<close>, the types \<open>u8\<close> and
  \<open>felt252\<close>, and no custom type: the name of the root struct is not recorded.
\<close>

theorem root_struct_of_two_primitives:
  "parseModelSchemaToRecs
     (Struct nm [(''a'', Primitive ''u8''), (''b'', Primitive ''felt252'')]) [] [] =
   Inr (''{ a: RecsType.Number, b: RecsType.BigInt }'', [''u8'', ''felt252''], [])"
  by (simp add: translate_refines(2) exprOf_u8_felt252 toString_def
        del: exprOf.simps parseSchemaStruct.simps)

text \<open>
  Claim C7. The value returned by the recursive translator depends on the node only:
  two runs on the same node return the same expression whatever the two accumulators
  hold at the start.
\<close>

theorem expression_independent_of_accumulators:
  "fst (parseModelSchemaToRecsImpl n types customTypes) =
   fst (parseModelSchemaToRecsImpl n types' customTypes')"
  by (simp add: translate_refines(1))

text \<open>
  Claim C10. For a node whose kind is none of primitive, struct, enum, tuple, the
  recursive translator raises nothing, returns \<open>undefined\<close> and leaves both accumulators
  as they were. As a member of a struct the value is interpolated as the text
  \<open>undefined\<close>; as an element of a tuple, \<open>join\<close> renders it as the empty string.
\<close>

theorem unknown_kind_returns_undefined:
  "parseModelSchemaToRecsImpl (Other tag) types customTypes = (Undefined, types, customTypes) \<and>
   parseSchemaStruct (nm, [(member_name, Other tag)]) types customTypes =
     (''{ '' @ member_name @ '': undefined'' @ '' }'', types, customTypes) \<and>
   parseSchemaTuple [Other tag] types customTypes = (''[  ]'', types, customTypes)"
  by (simp add: toString_def joinElement_def)


section \<open>The run: abort on the first failing model\<close>

lemma forEachModel_aborts:
  assumes "\<exists>m\<in>set models. modelFails fetchSchema rpcUrl worldAddress m"
  shows "\<exists>m\<in>set models. \<exists>e.
           translateModel fetchSchema rpcUrl worldAddress (parseModelName m) = Inl e \<and>
           forEachModel fetchSchema rpcUrl worldAddress models fileContent =
             Inl (errorMessage (parseModelName m) rpcUrl e)"
  using assms
proof (induction models arbitrary: fileContent)
  case Nil
  then show ?case by simp
next
  case (Cons m rest)
  show ?case
  proof (cases "translateModel fetchSchema rpcUrl worldAddress (parseModelName m)")
    case (Inl e)
    then show ?thesis by (auto simp: Let_def)
  next
    case (Inr r)
    with Cons.prems have "\<exists>m\<in>set rest. modelFails fetchSchema rpcUrl worldAddress m"
      by (auto simp: modelFails_def)
    from Cons.IH[OF this] Inr show ?thesis
      by (cases r) (auto simp: Let_def)
  qed
qed

text \<open>
  Claim C8. If the schema fetch or the translation fails for some model of the manifest,
  the run prints one line on standard error, made of the normalized name of a failing
  model, the endpoint and the error, prints nothing else, ends with exit status 0 and
  never calls \<open>fs.writeFile\<close>.
\<close>

theorem run_aborts_without_writing:
  assumes "\<exists>m\<in>set models. modelFails fetchSchema rpcUrl worldAddress m"
  shows "\<exists>m\<in>set models. \<exists>e.
           translateModel fetchSchema rpcUrl worldAddress (parseModelName m) = Inl e \<and>
           run fetchSchema writeFile models jsFilePath rpcUrl worldAddress =
             \<lparr>exitStatus = 0,
              stderrLines = [''error when fetching schema for model '' @ [CHR 0x27] @
                               parseModelName m @ [CHR 0x27] @ '' from '' @ rpcUrl @ '': '' @
                               errorText e],
              stdoutLines = [], writeFileCall = None\<rparr>"
proof -
  from forEachModel_aborts[OF assms, of fileHeader]
  obtain m e where "m \<in> set models"
    and "translateModel fetchSchema rpcUrl worldAddress (parseModelName m) = Inl e"
    and "forEachModel fetchSchema rpcUrl worldAddress models fileHeader =
           Inl (errorMessage (parseModelName m) rpcUrl e)"
    by blast
  then show ?thesis
    by (auto simp: run_def errorMessage_def)
qed

theorem run_aborts_without_writing_witness:
  "(\<exists>m\<in>set [\<lparr>name = ''ns::position''\<rparr>, \<lparr>name = ''ns::moves''\<rparr>].
      modelFails (\<lambda>n r w. if n = ''Moves'' then Inr (Enum ''Moves'') else Inr (Struct n []))
        ''http://localhost:5050'' ''0x1'' m) \<and>
   exitStatus (run (\<lambda>n r w. if n = ''Moves'' then Inr (Enum ''Moves'') else Inr (Struct n []))
       (\<lambda>p c. None) [\<lparr>name = ''ns::position''\<rparr>, \<lparr>name = ''ns::moves''\<rparr>]
       ''out.ts'' ''http://localhost:5050'' ''0x1'') = 0 \<and>
   writeFileCall (run (\<lambda>n r w. if n = ''Moves'' then Inr (Enum ''Moves'') else Inr (Struct n []))
       (\<lambda>p c. None) [\<lparr>name = ''ns::position''\<rparr>, \<lparr>name = ''ns::moves''\<rparr>]
       ''out.ts'' ''http://localhost:5050'' ''0x1'') = None"
proof -
  have names: "parseModelName \<lparr>name = ''ns::position''\<rparr> = ''Position''"
    "parseModelName \<lparr>name = ''ns::moves''\<rparr> = ''Moves''"
    by code_simp+
  have fails: "\<exists>m\<in>set [\<lparr>name = ''ns::position''\<rparr>, \<lparr>name = ''ns::moves''\<rparr>].
      modelFails (\<lambda>n r w. if n = ''Moves'' then Inr (Enum ''Moves'') else Inr (Struct n []))
        ''http://localhost:5050'' ''0x1'' m"
    by (simp add: modelFails_def translateModel_def names)
  from run_aborts_without_writing[OF fails, of "\<lambda>p c. None" "''out.ts''"] fails
  show ?thesis by auto
qed

end
